theory Spec2Isabelle
  imports Complex_Main
begin

section \<open>Errors\<close>

text \<open>
  Every exception the embedded functions can raise is a value. The first four are
  the exception classes the handlers declare themselves; the others are Python's
  built-in exceptions, raised by an out-of-range index, a missing key, a
  subscript on \<open>None\<close>, an unbound local or global name, or the library.
\<close>

datatype error =
    ReportRunError
  | ReportRunDeadlineExceeded
  | ReportError
  | ProductNotFoundError
  | IncorrectProductError string
  | IndexError
  | KeyError string
  | TypeError
  | ValueError
  | UnboundLocalError
  | NameError
  | CsvError

section \<open>cm_handler: the backoff schedule\<close>

definition MIN_RETRY_INTERVAL :: int where
  "MIN_RETRY_INTERVAL = 10"

definition MAX_RETRY_INTERVAL :: int where
  "MAX_RETRY_INTERVAL = 10 * 60"


text \<open>
  \<open>previous_sleep_interval or MIN_RETRY_INTERVAL\<close>: Python's \<open>or\<close> on integers
  yields the left operand unless it is zero.
\<close>

definition min_interval :: "int \<Rightarrow> int" where
  "min_interval previous_sleep_interval =
     (if previous_sleep_interval \<noteq> 0 then previous_sleep_interval else MIN_RETRY_INTERVAL)"

definition max_interval :: "int \<Rightarrow> int" where
  "max_interval previous_sleep_interval =
     (if previous_sleep_interval * 3 \<noteq> 0 then previous_sleep_interval * 3
      else MIN_RETRY_INTERVAL)"

text \<open>
  \<open>random.randint(a, b)\<close> returns some integer \<open>r\<close> with \<open>a \<le> r \<le> b\<close>, and raises
  \<open>ValueError\<close> when the range is empty. The draw is an argument of the model;
  \<open>randint_draw\<close> says which draws the library can produce.
\<close>

definition randint_draw :: "int \<Rightarrow> int \<Rightarrow> int \<Rightarrow> bool" where
  "randint_draw a b r \<longleftrightarrow> a \<le> r \<and> r \<le> b"

definition next_sleep_interval :: "int \<Rightarrow> int \<Rightarrow> error + int" where
  "next_sleep_interval previous_sleep_interval r =
     (if max_interval previous_sleep_interval < min_interval previous_sleep_interval
      then Inl ValueError
      else Inr (min MAX_RETRY_INTERVAL r))"

text \<open>
  Iterating \<open>sleep = _next_sleep_interval(sleep)\<close>, as the polling loop does, over a
  list of draws: the intervals produced, in order. \<open>draws_ok\<close> says that each draw is
  one \<open>randint\<close> can return for the interval that precedes it.
\<close>

fun backoff_intervals :: "int \<Rightarrow> int list \<Rightarrow> error + int list" where
  "backoff_intervals sleep [] = Inr []"
| "backoff_intervals sleep (r # rs) =
     (case next_sleep_interval sleep r of
        Inl e \<Rightarrow> Inl e
      | Inr sleep' \<Rightarrow>
          (case backoff_intervals sleep' rs of
             Inl e \<Rightarrow> Inl e
           | Inr xs \<Rightarrow> Inr (sleep' # xs)))"

fun draws_ok :: "int \<Rightarrow> int list \<Rightarrow> bool" where
  "draws_ok sleep [] = True"
| "draws_ok sleep (r # rs) =
     (randint_draw (min_interval sleep) (max_interval sleep) r \<and>
      draws_ok (min MAX_RETRY_INTERVAL r) rs)"

text \<open>
  The bound on a run of intervals: each lies between the one before it and the
  smaller of three times that one and \<open>MAX_RETRY_INTERVAL\<close>.
\<close>

fun within_backoff :: "int \<Rightarrow> int list \<Rightarrow> bool" where
  "within_backoff previous [] = True"
| "within_backoff previous (x # xs) =
     (previous \<le> x \<and> x \<le> min (3 * previous) MAX_RETRY_INTERVAL \<and> within_backoff x xs)"

section \<open>cm_handler: the single-job wait\<close>



section \<open>cm_handler: cleaning a downloaded report\<close>

text \<open>
  The loop of \<open>_clean_up\<close> assigns \<open>start_idx\<close> at the first row whose first cell is
  \<open>Report Fields\<close>; \<open>find_start\<close> is that loop, \<open>None\<close> when it ends without an
  assignment. Reading the unassigned local then raises \<open>UnboundLocalError\<close>.
  \<open>report_data[start_idx:-1]\<close> drops the first \<open>start_idx\<close> rows and the last one.
\<close>

fun find_start :: "nat \<Rightarrow> string list list \<Rightarrow> nat option" where
  "find_start i [] = None"
| "find_start i (row # rows) =
     (if row \<noteq> [] \<and> hd row = ''Report Fields'' then Some (i + 1)
      else find_start (i + 1) rows)"

definition clean_up :: "string list list \<Rightarrow> error + string list list" where
  "clean_up report_data =
     (case find_start 0 report_data of
        None \<Rightarrow> Inl UnboundLocalError
      | Some start_idx \<Rightarrow> Inr (butlast (drop start_idx report_data)))"

section \<open>dv360_handler: the status of one report\<close>

text \<open>
  The part of the service's answer that \<open>_get_report_status\<close> reads: the two entries
  of \<open>metadata\<close>, each fetched with \<open>dict.get\<close>, so an absent entry is \<open>None\<close>.
  Python's truth test decides the branches: \<open>None\<close> and \<open>False\<close> are false for the
  flag, \<open>None\<close> and the empty string are false for the path.
\<close>

record metadata =
  running :: "bool option"
  googleCloudStoragePathForLatestReport :: "string option"

datatype status_name = Completed | Failed | Running

text \<open>The dictionary \<open>query_status\<close>: always a \<open>status\<close>, a \<open>url\<close> only when completed.\<close>

record query_status =
  status :: status_name
  url :: "string option"

definition truthy_flag :: "bool option \<Rightarrow> bool" where
  "truthy_flag b = (case b of None \<Rightarrow> False | Some v \<Rightarrow> v)"

definition truthy_str :: "string option \<Rightarrow> bool" where
  "truthy_str s = (case s of None \<Rightarrow> False | Some v \<Rightarrow> v \<noteq> [])"

definition get_report_status :: "metadata \<Rightarrow> query_status" where
  "get_report_status response =
     (let is_running = running response;
          report_url = googleCloudStoragePathForLatestReport response
      in if \<not> truthy_flag is_running \<and> truthy_str report_url
         then \<lparr>status = Completed, url = report_url\<rparr>
         else if \<not> truthy_flag is_running \<and> \<not> truthy_str report_url
         then \<lparr>status = Failed, url = None\<rparr>
         else \<lparr>status = Running, url = None\<rparr>)"

section \<open>dv360_handler: the polling loops\<close>

text \<open>
  One tick of the outside world for the DV360 loops: the wall-clock time at which the
  round of status queries is answered, and the answer of the service for each query
  id. Neither loop reads the clock; it is part of the world so that statements about
  elapsed time can be made. As for the other loop, the list of ticks is the fuel, and
  \<open>None\<close> is a loop still polling when the list ends.

  What a loop does to the outside world is recorded as a trace of events: a round
  of status queries, or a sleep.
\<close>

record dv_tick =
  now :: real
  respond :: "string \<Rightarrow> metadata"

datatype event = StatusRound "string list" | Sleep int

text \<open>
  \<open>_get_reports_status\<close> queries every id of the batch through a pool of
  \<open>_MAX_WORKERS = 1\<close> workers and collects all the answers before it returns. The
  source appends the answers as the queries complete; the model lists them in the
  order of the batch, and nothing below depends on their order.
\<close>

definition get_reports_status :: "(string \<Rightarrow> metadata) \<Rightarrow> string list \<Rightarrow> query_status list" where
  "get_reports_status service query_ids = map (\<lambda>query_id. get_report_status (service query_id)) query_ids"

text \<open>\<open>[s['url'] for s in statuses]\<close>: a status without a \<open>url\<close> raises \<open>KeyError\<close>.\<close>

fun collect_urls :: "query_status list \<Rightarrow> error + string list" where
  "collect_urls [] = Inr []"
| "collect_urls (s # ss) =
     (case url s of
        None \<Rightarrow> Inl (KeyError ''url'')
      | Some u \<Rightarrow> (case collect_urls ss of Inl e \<Rightarrow> Inl e | Inr us \<Rightarrow> Inr (u # us)))"

text \<open>
  \<open>wait_for_reports_to_complete\<close>: the body of the loop is the round of queries and
  the test that every status is \<open>Completed\<close>, and nothing else.
\<close>

fun wait_for_reports_to_complete ::
  "string list \<Rightarrow> dv_tick list \<Rightarrow> (error + string list) option \<times> event list" where
  "wait_for_reports_to_complete query_ids [] = (None, [])"
| "wait_for_reports_to_complete query_ids (t # ts) =
     (let statuses = get_reports_status (respond t) query_ids
      in if list_all (\<lambda>s. status s = Completed) statuses
         then (Some (collect_urls statuses), [StatusRound query_ids])
         else (case wait_for_reports_to_complete query_ids ts of
                 (r, evs) \<Rightarrow> (r, StatusRound query_ids # evs)))"

text \<open>
  The loop of \<open>create_timezone_report\<close>. The module \<open>dv360_handler\<close> does not import
  \<open>time\<close>, so evaluating \<open>time.sleep(5)\<close> raises \<open>NameError\<close> before anything sleeps.
\<close>

fun create_timezone_report_poll ::
  "string \<Rightarrow> dv_tick list \<Rightarrow> (error + string) option \<times> event list" where
  "create_timezone_report_poll query_id [] = (None, [])"
| "create_timezone_report_poll query_id (t # ts) =
     (let query_status = get_report_status (respond t query_id)
      in if status query_status = Completed
         then (case url query_status of
                 None \<Rightarrow> (Some (Inl (KeyError ''url'')), [StatusRound [query_id]])
               | Some u \<Rightarrow> (Some (Inr u), [StatusRound [query_id]]))
         else if status query_status = Failed
         then (Some (Inl ReportError), [StatusRound [query_id]])
         else (Some (Inl NameError), [StatusRound [query_id]]))"

section \<open>Python text\<close>

text \<open>
  A Python \<open>str\<close> is a sequence of code points. It is modelled by the \<open>string\<close> that
  holds its UTF-8 encoding, so an ASCII character is one \<open>char\<close> and the literals of
  the source read as they are written. The operations below act on whole encoded
  characters: the byte-order mark, the line boundaries and the white space of
  Python are listed by their encodings.
\<close>

text \<open>
  \<open>str.lower\<close>, on the letters A to Z. Python also lowers letters outside ASCII;
  none of them becomes one of the letters the source compares with
  (\<open>product\<close>, \<open>gst\<close>), so the tests of the source come out the same.
\<close>

definition char_lower :: "char \<Rightarrow> char" where
  "char_lower c =
     (case map_of (zip ''ABCDEFGHIJKLMNOPQRSTUVWXYZ'' ''abcdefghijklmnopqrstuvwxyz'') c of
        Some d \<Rightarrow> d
      | None \<Rightarrow> c)"

definition lower :: "string \<Rightarrow> string" where
  "lower s = map char_lower s"

text \<open>\<open>sub in s\<close>: \<open>sub\<close> occurs in \<open>s\<close> as a contiguous run.\<close>

fun contains :: "string \<Rightarrow> string \<Rightarrow> bool" where
  "contains sub [] = (sub = [])"
| "contains sub (c # cs) = (take (length sub) (c # cs) = sub \<or> contains sub cs)"

text \<open>\<open>s.replace(pat, '')\<close> for a non-empty \<open>pat\<close>: every occurrence, left to right.\<close>

function remove_all :: "string \<Rightarrow> string \<Rightarrow> string" where
  "remove_all pat [] = []"
| "remove_all pat (c # cs) =
     (if pat \<noteq> [] \<and> take (length pat) (c # cs) = pat
      then remove_all pat (drop (length pat) (c # cs))
      else c # remove_all pat cs)"
  by pat_completeness auto
termination
  by (relation "measure (\<lambda>(pat, s). length s)") auto

text \<open>The byte-order mark U+FEFF.\<close>

definition BOM :: string where
  "BOM = [CHR 0xEF, CHR 0xBB, CHR 0xBF]"

text \<open>
  \<open>first_match ws s\<close> is the length of the first element of \<open>ws\<close> that \<open>s\<close> starts
  with, and 0 when there is none.
\<close>

fun first_match :: "string list \<Rightarrow> string \<Rightarrow> nat" where
  "first_match [] s = 0"
| "first_match (w # ws) s = (if take (length w) s = w then length w else first_match ws s)"

text \<open>
  The line boundaries of \<open>str.splitlines\<close>: CR LF (before CR alone), LF, CR, VT,
  FF, FS, GS, RS, NEL (U+0085), LS (U+2028) and PS (U+2029).
\<close>

definition line_boundaries :: "string list" where
  "line_boundaries =
     [[CHR 0x0D, CHR 0x0A], [CHR 0x0A], [CHR 0x0D], [CHR 0x0B], [CHR 0x0C],
      [CHR 0x1C], [CHR 0x1D], [CHR 0x1E], [CHR 0xC2, CHR 0x85],
      [CHR 0xE2, CHR 0x80, CHR 0xA8], [CHR 0xE2, CHR 0x80, CHR 0xA9]]"

function splitlines_from :: "string \<Rightarrow> string \<Rightarrow> string list" where
  "splitlines_from cur [] = (if cur = [] then [] else [cur])"
| "splitlines_from cur (c # cs) =
     (if first_match line_boundaries (c # cs) = 0
      then splitlines_from (cur @ [c]) cs
      else cur # splitlines_from [] (drop (first_match line_boundaries (c # cs)) (c # cs)))"
  by pat_completeness auto
termination
  by (relation "measure (\<lambda>(cur, s). length s)") auto

definition splitlines :: "string \<Rightarrow> string list" where
  "splitlines s = splitlines_from [] s"

text \<open>
  The white space of \<open>str.strip\<close>: U+0009 to U+000D, U+001C to U+0020, U+0085,
  U+00A0, U+1680, U+2000 to U+200A, U+2028, U+2029, U+202F, U+205F and U+3000.
\<close>

definition whitespace :: "string list" where
  "whitespace =
     [[CHR 0x09], [CHR 0x0A], [CHR 0x0B], [CHR 0x0C], [CHR 0x0D],
      [CHR 0x1C], [CHR 0x1D], [CHR 0x1E], [CHR 0x1F], [CHR 0x20],
      [CHR 0xC2, CHR 0x85], [CHR 0xC2, CHR 0xA0], [CHR 0xE1, CHR 0x9A, CHR 0x80],
      [CHR 0xE2, CHR 0x80, CHR 0x80], [CHR 0xE2, CHR 0x80, CHR 0x81],
      [CHR 0xE2, CHR 0x80, CHR 0x82], [CHR 0xE2, CHR 0x80, CHR 0x83],
      [CHR 0xE2, CHR 0x80, CHR 0x84], [CHR 0xE2, CHR 0x80, CHR 0x85],
      [CHR 0xE2, CHR 0x80, CHR 0x86], [CHR 0xE2, CHR 0x80, CHR 0x87],
      [CHR 0xE2, CHR 0x80, CHR 0x88], [CHR 0xE2, CHR 0x80, CHR 0x89],
      [CHR 0xE2, CHR 0x80, CHR 0x8A], [CHR 0xE2, CHR 0x80, CHR 0xA8],
      [CHR 0xE2, CHR 0x80, CHR 0xA9], [CHR 0xE2, CHR 0x80, CHR 0xAF],
      [CHR 0xE2, CHR 0x81, CHR 0x9F], [CHR 0xE3, CHR 0x80, CHR 0x80]]"

function lstrip_of :: "string list \<Rightarrow> string \<Rightarrow> string" where
  "lstrip_of ws [] = []"
| "lstrip_of ws (c # cs) =
     (if first_match ws (c # cs) = 0 then c # cs
      else lstrip_of ws (drop (first_match ws (c # cs)) (c # cs)))"
  by pat_completeness auto
termination
  by (relation "measure (\<lambda>(ws, s). length s)") auto

text \<open>\<open>s.strip()\<close>: white space removed at both ends.\<close>

definition strip :: "string \<Rightarrow> string" where
  "strip s = rev (lstrip_of (map rev whitespace) (rev (lstrip_of whitespace s)))"

text \<open>
  \<open>re.search(r'\((.*)\)', s)\<close>, group 1: the search takes the leftmost \<open>(\<close> from
  which a match exists; \<open>.*\<close> is greedy and does not cross a line feed, so the group
  runs up to the last \<open>)\<close> before the next line feed. \<open>None\<close> when nothing matches.
\<close>

definition greedy_to_close :: "string \<Rightarrow> string option" where
  "greedy_to_close seg =
     (if CHR '')'' \<in> set seg
      then Some (rev (tl (dropWhile (\<lambda>d. d \<noteq> CHR '')'') (rev seg))))
      else None)"

fun paren_group :: "string \<Rightarrow> string option" where
  "paren_group [] = None"
| "paren_group (c # cs) =
     (if c = CHR ''(''
      then (case greedy_to_close (takeWhile (\<lambda>d. d \<noteq> CHR 0x0A) cs) of
              Some g \<Rightarrow> Some g
            | None \<Rightarrow> paren_group cs)
      else paren_group cs)"

section \<open>Python dictionaries\<close>

text \<open>
  A \<open>dict\<close> keeps its keys in insertion order: storing under a key that is present
  replaces the value in place, a new key goes to the end. Lookup is \<open>map_of\<close>.
\<close>

type_synonym dict = "(string \<times> string) list"

fun dict_set :: "dict \<Rightarrow> string \<Rightarrow> string \<Rightarrow> dict" where
  "dict_set [] k v = [(k, v)]"
| "dict_set ((k', v') # d) k v =
     (if k' = k then (k, v) # d else (k', v') # dict_set d k v)"

text \<open>\<open>d.update(other)\<close> and \<open>dict(pairs)\<close>.\<close>

definition dict_update :: "dict \<Rightarrow> dict \<Rightarrow> dict" where
  "dict_update d other = fold (\<lambda>(k, v) acc. dict_set acc k v) other d"

definition dict_of :: "(string \<times> string) list \<Rightarrow> dict" where
  "dict_of pairs = dict_update [] pairs"

section \<open>The CSV reader of the standard library\<close>

text \<open>
  \<open>csv.reader\<close> with the default dialect (delimiter \<open>,\<close>, quote character \<open>"\<close>,
  doubled quotes, no escape character, not strict), as the state machine of the
  library: one character at a time, with an end-of-line mark (\<open>None\<close> here) after
  each line. A record is complete when the machine is back in \<open>START_RECORD\<close>; a
  quoted field left open continues on the next line. A field longer than the field
  size limit of 131072 characters raises \<open>csv.Error\<close>; the length counts characters,
  that is, the bytes that do not continue an encoded character.
\<close>

datatype parser_state =
  START_RECORD | START_FIELD | IN_FIELD | IN_QUOTED_FIELD | QUOTE_IN_QUOTED_FIELD | EAT_CRNL

record csv_parser =
  pstate :: parser_state
  field :: string
  field_len :: nat
  record_fields :: "string list"

definition field_limit :: nat where
  "field_limit = 128 * 1024"

definition continuation_byte :: "char \<Rightarrow> bool" where
  "continuation_byte c = (case c of Char b0 b1 b2 b3 b4 b5 b6 b7 \<Rightarrow> b7 \<and> \<not> b6)"

definition parse_reset :: csv_parser where
  "parse_reset = \<lparr>pstate = START_RECORD, field = [], field_len = 0, record_fields = []\<rparr>"

definition parse_add_char :: "csv_parser \<Rightarrow> char \<Rightarrow> error + csv_parser" where
  "parse_add_char self c =
     (if continuation_byte c then Inr (self\<lparr>field := field self @ [c]\<rparr>)
      else if field_len self \<ge> field_limit then Inl CsvError
      else Inr (self\<lparr>field := field self @ [c], field_len := field_len self + 1\<rparr>))"

definition parse_save_field :: "csv_parser \<Rightarrow> csv_parser" where
  "parse_save_field self =
     self\<lparr>record_fields := record_fields self @ [field self], field := [], field_len := 0\<rparr>"

definition is_newline :: "char \<Rightarrow> bool" where
  "is_newline c \<longleftrightarrow> c = CHR 0x0A \<or> c = CHR 0x0D"

definition start_field :: "csv_parser \<Rightarrow> char option \<Rightarrow> error + csv_parser" where
  "start_field self c =
     (case c of
        None \<Rightarrow> Inr ((parse_save_field self)\<lparr>pstate := START_RECORD\<rparr>)
      | Some d \<Rightarrow>
          if is_newline d then Inr ((parse_save_field self)\<lparr>pstate := EAT_CRNL\<rparr>)
          else if d = CHR 0x22 then Inr (self\<lparr>pstate := IN_QUOTED_FIELD\<rparr>)
          else if d = CHR '','' then Inr (parse_save_field self)
          else (case parse_add_char self d of
                  Inl e \<Rightarrow> Inl e
                | Inr self' \<Rightarrow> Inr (self'\<lparr>pstate := IN_FIELD\<rparr>)))"

definition parse_process_char :: "csv_parser \<Rightarrow> char option \<Rightarrow> error + csv_parser" where
  "parse_process_char self c =
     (case pstate self of
        START_RECORD \<Rightarrow>
          (case c of
             None \<Rightarrow> Inr self
           | Some d \<Rightarrow>
               if is_newline d then Inr (self\<lparr>pstate := EAT_CRNL\<rparr>)
               else start_field (self\<lparr>pstate := START_FIELD\<rparr>) c)
      | START_FIELD \<Rightarrow> start_field self c
      | IN_FIELD \<Rightarrow>
          (case c of
             None \<Rightarrow> Inr ((parse_save_field self)\<lparr>pstate := START_RECORD\<rparr>)
           | Some d \<Rightarrow>
               if is_newline d then Inr ((parse_save_field self)\<lparr>pstate := EAT_CRNL\<rparr>)
               else if d = CHR '','' then Inr ((parse_save_field self)\<lparr>pstate := START_FIELD\<rparr>)
               else parse_add_char self d)
      | IN_QUOTED_FIELD \<Rightarrow>
          (case c of
             None \<Rightarrow> Inr self
           | Some d \<Rightarrow>
               if d = CHR 0x22 then Inr (self\<lparr>pstate := QUOTE_IN_QUOTED_FIELD\<rparr>)
               else parse_add_char self d)
      | QUOTE_IN_QUOTED_FIELD \<Rightarrow>
          (case c of
             None \<Rightarrow> Inr ((parse_save_field self)\<lparr>pstate := START_RECORD\<rparr>)
           | Some d \<Rightarrow>
               if d = CHR 0x22
               then (case parse_add_char self d of
                       Inl e \<Rightarrow> Inl e
                     | Inr self' \<Rightarrow> Inr (self'\<lparr>pstate := IN_QUOTED_FIELD\<rparr>))
               else if d = CHR '','' then Inr ((parse_save_field self)\<lparr>pstate := START_FIELD\<rparr>)
               else if is_newline d then Inr ((parse_save_field self)\<lparr>pstate := EAT_CRNL\<rparr>)
               else (case parse_add_char self d of
                       Inl e \<Rightarrow> Inl e
                     | Inr self' \<Rightarrow> Inr (self'\<lparr>pstate := IN_FIELD\<rparr>)))
      | EAT_CRNL \<Rightarrow>
          (case c of
             None \<Rightarrow> Inr (self\<lparr>pstate := START_RECORD\<rparr>)
           | Some d \<Rightarrow> if is_newline d then Inr self else Inl CsvError))"

text \<open>One line of input: its characters, then the end-of-line mark.\<close>

fun parse_line :: "csv_parser \<Rightarrow> string \<Rightarrow> error + csv_parser" where
  "parse_line self [] = parse_process_char self None"
| "parse_line self (c # cs) =
     (case parse_process_char self (Some c) of
        Inl e \<Rightarrow> Inl e
      | Inr self' \<Rightarrow> parse_line self' cs)"

text \<open>
  The records the reader yields, in order; it is an iterator, so an error of the
  library is raised only when the loop reaches that record: the list ends with it.
  At the end of the input an open quoted field closes the last record.
\<close>

fun csv_records :: "csv_parser \<Rightarrow> string list \<Rightarrow> (error + string list) list" where
  "csv_records self [] =
     (if field_len self \<noteq> 0 \<or> pstate self = IN_QUOTED_FIELD
      then [Inr (record_fields (parse_save_field self))]
      else [])"
| "csv_records self (l # ls) =
     (case parse_line self l of
        Inl e \<Rightarrow> [Inl e]
      | Inr self' \<Rightarrow>
          if pstate self' = START_RECORD
          then Inr (record_fields self') # csv_records parse_reset ls
          else csv_records self' ls)"

definition csv_reader :: "string list \<Rightarrow> (error + string list) list" where
  "csv_reader lines = csv_records parse_reset lines"

section \<open>invoice_handler\<close>

definition SUPPORTED_PRODUCTS :: "string list" where
  "SUPPORTED_PRODUCTS =
     [''Display and Video 360'', ''Campaign Manager'', ''DoubleClick Campaign Manager'']"

datatype State = READ_HEADER | READ_PRODUCT | READ_ENTRIES | READ_GST

text \<open>\<open>read_header\<close>: the key is \<open>row[0]\<close> with every U+FEFF removed, the value is \<open>row[1]\<close>;
  a row of fewer than two cells raises \<open>IndexError\<close>.\<close>

definition read_header :: "string list \<Rightarrow> error + dict" where
  "read_header row =
     (if length row < 2 then Inl IndexError
      else Inr [(remove_all BOM (row ! 0), row ! 1)])"

text \<open>
  The test \<open>not row[0] and 'gst' in row[k].lower()\<close>: \<open>row[0]\<close> is read first, and
  \<open>row[k]\<close> only when \<open>row[0]\<close> is empty.
\<close>

definition gst_in :: "string list \<Rightarrow> nat \<Rightarrow> error + bool" where
  "gst_in row k =
     (if row = [] then Inl IndexError
      else if row ! 0 \<noteq> [] then Inr False
      else if length row \<le> k then Inl IndexError
      else Inr (contains ''gst'' (lower (row ! k))))"

text \<open>
  The body of both branches: group 1 of the search in \<open>row[k]\<close> (subscripting the
  \<open>None\<close> of a failed search raises \<open>TypeError\<close>) and the last cell.
\<close>

definition gst_fields :: "string list \<Rightarrow> nat \<Rightarrow> error + dict" where
  "gst_fields row k =
     (case paren_group (row ! k) of
        None \<Rightarrow> Inl TypeError
      | Some gst_pct \<Rightarrow> Inr [(''gst_pct'', gst_pct), (''gst_val'', last row)])"

definition read_gst :: "string list \<Rightarrow> error + dict" where
  "read_gst row =
     (case gst_in row 2 of
        Inl e \<Rightarrow> Inl e
      | Inr True \<Rightarrow> gst_fields row 2
      | Inr False \<Rightarrow>
          (case gst_in row 3 of
             Inl e \<Rightarrow> Inl e
           | Inr True \<Rightarrow> gst_fields row 3
           | Inr False \<Rightarrow> Inr []))"

text \<open>\<open>read_entries\<close>: \<open>rows[0]\<close> raises when nothing was buffered.\<close>

definition read_entries :: "string \<Rightarrow> string list list \<Rightarrow> error + dict list" where
  "read_entries invoice_number rows =
     (if rows = [] then Inl IndexError
      else let header = hd rows;
               entries = tl rows;
               all_entries = map (\<lambda>e. dict_of (zip header (map strip e))) entries
           in Inr (map (\<lambda>e. dict_update e [(''Invoice number'', invoice_number)]) all_entries))"

text \<open>What the loop of \<open>read\<close> carries from one row to the next.\<close>

record parse =
  state :: State
  invoice_header :: dict
  invoice_entries :: "string list list"

definition initial :: parse where
  "initial = \<lparr>state = READ_HEADER, invoice_header = [], invoice_entries = []\<rparr>"

text \<open>
  The body of the loop for one row. The two blank-row transitions come first and
  skip the row; the third test reads \<open>row[0]\<close> whatever the state, so a blank row in
  any later state raises \<open>IndexError\<close>.
\<close>

definition process_row :: "parse \<Rightarrow> string list \<Rightarrow> error + parse" where
  "process_row p row =
     (if row = [] \<and> state p = READ_HEADER then Inr (p\<lparr>state := READ_PRODUCT\<rparr>)
      else if row = [] \<and> state p = READ_PRODUCT then Inr (p\<lparr>state := READ_ENTRIES\<rparr>)
      else if row = [] then Inl IndexError
      else
        let p = (if row ! 0 = [] \<and> state p = READ_ENTRIES then p\<lparr>state := READ_GST\<rparr> else p)
        in (case state p of
              READ_HEADER \<Rightarrow>
                (case read_header row of
                   Inl e \<Rightarrow> Inl e
                 | Inr h \<Rightarrow> Inr (p\<lparr>invoice_header := dict_update (invoice_header p) h\<rparr>))
            | READ_PRODUCT \<Rightarrow>
                (if row = [] \<or> lower (row ! 0) \<noteq> ''product'' then Inl ProductNotFoundError
                 else (case read_header row of
                         Inl e \<Rightarrow> Inl e
                       | Inr h \<Rightarrow>
                           let header = dict_update (invoice_header p) h
                           in (case map_of header ''Product'' of
                                 None \<Rightarrow> Inl (KeyError ''Product'')
                               | Some product \<Rightarrow>
                                   if product \<notin> set SUPPORTED_PRODUCTS
                                   then Inl (IncorrectProductError product)
                                   else Inr (p\<lparr>invoice_header := header\<rparr>))))
            | READ_ENTRIES \<Rightarrow> Inr (p\<lparr>invoice_entries := invoice_entries p @ [row]\<rparr>)
            | READ_GST \<Rightarrow>
                (case read_gst row of
                   Inl e \<Rightarrow> Inl e
                 | Inr g \<Rightarrow> Inr (p\<lparr>invoice_header := dict_update (invoice_header p) g\<rparr>))))"

text \<open>\<open>for row in reader\<close>: the first error, of the reader or of the body, ends it.\<close>

fun read_rows :: "parse \<Rightarrow> (error + string list) list \<Rightarrow> error + parse" where
  "read_rows p [] = Inr p"
| "read_rows p (Inl e # rs) = Inl e"
| "read_rows p (Inr row # rs) =
     (case process_row p row of
        Inl e \<Rightarrow> Inl e
      | Inr p' \<Rightarrow> read_rows p' rs)"

text \<open>The three nested \<open>try\<close> blocks after the loop.\<close>

definition invoice_number_of :: "dict \<Rightarrow> error + string" where
  "invoice_number_of header =
     (case map_of header ''Invoice number'' of
        Some v \<Rightarrow> Inr v
      | None \<Rightarrow>
          (case map_of header ''Credit memo number'' of
             Some v \<Rightarrow> Inr v
           | None \<Rightarrow>
               (case map_of header ''Debit memo number'' of
                  Some v \<Rightarrow> Inr v
                | None \<Rightarrow> Inl (KeyError ''Invoice/Credit/Debit number not found''))))"

text \<open>
  The resolution in words: the keys in their order of priority, and the first of
  them that the header holds.
\<close>

definition invoice_number_keys :: "string list" where
  "invoice_number_keys = [''Invoice number'', ''Credit memo number'', ''Debit memo number'']"

definition first_present_key :: "dict \<Rightarrow> string option" where
  "first_present_key header = find (\<lambda>k. map_of header k \<noteq> None) invoice_number_keys"

text \<open>The part of \<open>read\<close> after the loop, from the header and the buffered rows.\<close>

definition finish :: "parse \<Rightarrow> error + dict \<times> dict list" where
  "finish p =
     (case invoice_number_of (invoice_header p) of
        Inl e \<Rightarrow> Inl e
      | Inr invoice_number \<Rightarrow>
          (case read_entries invoice_number (invoice_entries p) of
             Inl e \<Rightarrow> Inl e
           | Inr invoice_entries_dict \<Rightarrow> Inr (invoice_header p, invoice_entries_dict)))"

text \<open>\<open>read\<close>, from the text of the file.\<close>

definition read :: "string \<Rightarrow> error + dict \<times> dict list" where
  "read data =
     (case read_rows initial (csv_reader (splitlines data)) of
        Inl e \<Rightarrow> Inl e
      | Inr p \<Rightarrow> finish p)"

section \<open>Sample answers of the report service\<close>

text \<open>
  Answers of the service used in the examples below: a report still running, a
  report that ended without a file, one that ended with an empty locator, and a
  report whose file is ready.
\<close>

definition still_running :: "string \<Rightarrow> metadata" where
  "still_running query_id =
     \<lparr>running = Some True, googleCloudStoragePathForLatestReport = None\<rparr>"

definition ended_without_file :: "string \<Rightarrow> metadata" where
  "ended_without_file query_id =
     \<lparr>running = Some False, googleCloudStoragePathForLatestReport = None\<rparr>"

definition ended_with_empty_locator :: "string \<Rightarrow> metadata" where
  "ended_with_empty_locator query_id =
     \<lparr>running = Some False, googleCloudStoragePathForLatestReport = Some []\<rparr>"

definition file_ready :: "string \<Rightarrow> metadata" where
  "file_ready query_id =
     \<lparr>running = Some False,
      googleCloudStoragePathForLatestReport = Some (''gs://reports/'' @ query_id)\<rparr>"

text \<open>A batch of two in which \<open>q1\<close> has failed and \<open>q2\<close> has completed, minute after minute.\<close>

definition q1_failed :: "string \<Rightarrow> metadata" where
  "q1_failed query_id =
     (if query_id = ''q1'' then ended_without_file query_id else file_ready query_id)"

definition q1_failed_tick :: "nat \<Rightarrow> dv_tick" where
  "q1_failed_tick k = \<lparr>now = 60 * real k, respond = q1_failed\<rparr>"

section \<open>Sample invoices\<close>

text \<open>The line feed, and the invoice texts used in the examples below.\<close>

definition LF :: string where
  "LF = [CHR 0x0A]"

text \<open>The text of the scenario: a blank line stands between the entries and the tax row.\<close>

definition scenario_invoice :: string where
  "scenario_invoice =
     ''Invoice number,INV-1'' @ LF @ LF @
     ''Product,Campaign Manager'' @ LF @ LF @
     ''Item,Qty,Price'' @ LF @
     ''Widget,2,10.00'' @ LF @ LF @
     '',,GST (15%),,3.00''"

text \<open>The same text with the tax row right after the last entry.\<close>

definition invoice_without_gap :: string where
  "invoice_without_gap =
     ''Invoice number,INV-1'' @ LF @ LF @
     ''Product,Campaign Manager'' @ LF @ LF @
     ''Item,Qty,Price'' @ LF @
     ''Widget,2,10.00'' @ LF @
     '',,GST (15%),,3.00''"




text \<open>A credit memo: its number is under the second key.\<close>

definition credit_memo :: string where
  "credit_memo =
     ''Credit memo number,CM-7'' @ LF @
     ''Debit memo number,DM-9'' @ LF @ LF @
     ''Product,Display and Video 360'' @ LF @ LF @
     ''Invoice number,Qty'' @ LF @
     ''X-1, 2 '' @ LF @
     ''X-2,5''"

section \<open>The backoff schedule stays within its bounds\<close>

lemma backoff_step:
  assumes "0 < s" "s \<le> MAX_RETRY_INTERVAL" "draws_ok s rs"
  shows "\<exists>xs. backoff_intervals s rs = Inr xs \<and> length xs = length rs \<and> within_backoff s xs"
  using assms
proof (induction rs arbitrary: s)
  case Nil
  then show ?case by simp
next
  case (Cons r rs)
  let ?s' = "min MAX_RETRY_INTERVAL r"
  from Cons.prems have r: "s \<le> r" "r \<le> 3 * s"
    by (auto simp: randint_draw_def min_interval_def max_interval_def)
  from Cons.prems have ok: "draws_ok ?s' rs" by simp
  from r Cons.prems have pos: "0 < ?s'" "?s' \<le> MAX_RETRY_INTERVAL"
    by (auto simp: MAX_RETRY_INTERVAL_def)
  from Cons.IH [OF pos ok] obtain xs where
    xs: "backoff_intervals ?s' rs = Inr xs" "length xs = length rs" "within_backoff ?s' xs"
    by blast
  from Cons.prems have nxt: "next_sleep_interval s r = Inr ?s'"
    by (simp add: next_sleep_interval_def min_interval_def max_interval_def)
  from r Cons.prems have "s \<le> ?s'" "?s' \<le> min (3 * s) MAX_RETRY_INTERVAL"
    by auto
  with xs nxt show ?case by simp
qed

lemma within_backoff_nth:
  "within_backoff s xs \<Longrightarrow> Suc i < length xs \<Longrightarrow>
     xs ! i \<le> xs ! Suc i \<and> xs ! Suc i \<le> min (3 * (xs ! i)) MAX_RETRY_INTERVAL"
proof (induction xs arbitrary: s i)
  case Nil
  then show ?case by simp
next
  case (Cons x xs)
  show ?case
  proof (cases i)
    case 0
    with Cons.prems show ?thesis by (cases xs) auto
  next
    case (Suc j)
    with Cons.prems Cons.IH [of x j] show ?thesis by simp
  qed
qed

text \<open>
  Claim C4. Iterating \<open>_next_sleep_interval\<close> from 0, whatever \<open>randint\<close> draws: no
  step raises, the first interval is \<open>MIN_RETRY_INTERVAL\<close>, and every later interval
  lies between the one before it and the smaller of three times that one and
  \<open>MAX_RETRY_INTERVAL\<close>.
\<close>

theorem backoff_intervals_bounds:
  assumes "draws_ok 0 rs"
  shows "\<exists>xs. backoff_intervals 0 rs = Inr xs \<and> length xs = length rs \<and>
           (rs \<noteq> [] \<longrightarrow> hd xs = MIN_RETRY_INTERVAL) \<and>
           (\<forall>i. Suc i < length xs \<longrightarrow>
              xs ! i \<le> xs ! Suc i \<and> xs ! Suc i \<le> min (3 * (xs ! i)) MAX_RETRY_INTERVAL)"
proof (cases rs)
  case Nil
  then show ?thesis by simp
next
  case (Cons r rs')
  with assms have r: "r = MIN_RETRY_INTERVAL"
    by (simp add: randint_draw_def min_interval_def max_interval_def)
  have first: "next_sleep_interval 0 r = Inr MIN_RETRY_INTERVAL"
    using r by (simp add: next_sleep_interval_def min_interval_def max_interval_def
        MIN_RETRY_INTERVAL_def MAX_RETRY_INTERVAL_def)
  from assms Cons r have ok: "draws_ok MIN_RETRY_INTERVAL rs'"
    by (simp add: MIN_RETRY_INTERVAL_def MAX_RETRY_INTERVAL_def)
  have "0 < MIN_RETRY_INTERVAL" "MIN_RETRY_INTERVAL \<le> MAX_RETRY_INTERVAL"
    by (simp_all add: MIN_RETRY_INTERVAL_def MAX_RETRY_INTERVAL_def)
  from backoff_step [OF this ok] obtain xs where
    xs: "backoff_intervals MIN_RETRY_INTERVAL rs' = Inr xs" "length xs = length rs'"
      "within_backoff MIN_RETRY_INTERVAL xs"
    by blast
  have chain: "within_backoff MIN_RETRY_INTERVAL (MIN_RETRY_INTERVAL # xs)"
    using xs(3) by (simp add: MIN_RETRY_INTERVAL_def MAX_RETRY_INTERVAL_def)
  have "backoff_intervals 0 rs = Inr (MIN_RETRY_INTERVAL # xs)"
    using Cons first xs(1) by simp
  moreover have "length (MIN_RETRY_INTERVAL # xs) = length rs"
    using Cons xs(2) by simp
  moreover have "\<forall>i. Suc i < length (MIN_RETRY_INTERVAL # xs) \<longrightarrow>
      (MIN_RETRY_INTERVAL # xs) ! i \<le> (MIN_RETRY_INTERVAL # xs) ! Suc i \<and>
      (MIN_RETRY_INTERVAL # xs) ! Suc i \<le> min (3 * ((MIN_RETRY_INTERVAL # xs) ! i)) MAX_RETRY_INTERVAL"
    using within_backoff_nth [OF chain] by blast
  ultimately show ?thesis by (intro exI [of _ "MIN_RETRY_INTERVAL # xs"]) simp
qed

text \<open>The theorem at a run of six draws that reaches the cap.\<close>

theorem backoff_intervals_bounds_witness:
  "draws_ok 0 [10, 25, 70, 200, 600, 1000] \<and>
   backoff_intervals 0 [10, 25, 70, 200, 600, 1000] = Inr [10, 25, 70, 200, 600, 600] \<and>
   (\<exists>xs. backoff_intervals 0 [10, 25, 70, 200, 600, 1000] = Inr xs \<and>
      length xs = length [10, 25, 70, 200, 600, 1000 :: int] \<and>
      ([10, 25, 70, 200, 600, 1000 :: int] \<noteq> [] \<longrightarrow> hd xs = MIN_RETRY_INTERVAL) \<and>
      (\<forall>i. Suc i < length xs \<longrightarrow>
         xs ! i \<le> xs ! Suc i \<and> xs ! Suc i \<le> min (3 * (xs ! i)) MAX_RETRY_INTERVAL))"
proof -
  have ok: "draws_ok 0 [10, 25, 70, 200, 600, 1000]"
    by (simp add: randint_draw_def min_interval_def max_interval_def
        MIN_RETRY_INTERVAL_def MAX_RETRY_INTERVAL_def)
  have run: "backoff_intervals 0 [10, 25, 70, 200, 600, 1000] = Inr [10, 25, 70, 200, 600, 600]"
    by (simp add: next_sleep_interval_def min_interval_def max_interval_def
        MIN_RETRY_INTERVAL_def MAX_RETRY_INTERVAL_def)
  from ok run backoff_intervals_bounds [OF ok] show ?thesis
    by (intro conjI)
qed

section \<open>Cleaning a report that has no sentinel row\<close>

lemma find_start_None:
  "find_start i report_data = None \<longleftrightarrow>
     (\<forall>row \<in> set report_data. row = [] \<or> hd row \<noteq> ''Report Fields'')"
  by (induction report_data arbitrary: i) auto

text \<open>
  Claim C10. When no row of the payload has \<open>Report Fields\<close> as its first cell,
  \<open>_clean_up\<close> raises \<open>UnboundLocalError\<close>, which is none of the errors the handler
  declares; it returns a value exactly when such a row is present.
\<close>

theorem clean_up_needs_sentinel:
  "((\<forall>row \<in> set report_data. row = [] \<or> hd row \<noteq> ''Report Fields'') \<longrightarrow>
      clean_up report_data = Inl UnboundLocalError) \<and>
   ((\<exists>rows. clean_up report_data = Inr rows) \<longleftrightarrow>
      (\<exists>row \<in> set report_data. row \<noteq> [] \<and> hd row = ''Report Fields''))"
proof (cases "find_start 0 report_data")
  case None
  then show ?thesis
    using find_start_None [of 0 report_data] by (auto simp: clean_up_def)
next
  case (Some k)
  then show ?thesis
    using find_start_None [of 0 report_data] by (auto simp: clean_up_def)
qed

text \<open>The theorem at a payload of three rows, one of them blank, without the sentinel.\<close>

theorem clean_up_needs_sentinel_witness:
  "clean_up [[''Advertiser'', ''Clicks''], [], [''Acme'', ''7'']] = Inl UnboundLocalError"
proof -
  have h: "\<forall>row \<in> set [[''Advertiser'', ''Clicks''], [], [''Acme'', ''7'']].
             row = [] \<or> hd row \<noteq> ''Report Fields''"
    by simp
  from h clean_up_needs_sentinel [of "[[''Advertiser'', ''Clicks''], [], [''Acme'', ''7'']]"]
  show ?thesis by blast
qed

section \<open>The status of one report\<close>

text \<open>
  Claim C6, as the code has it. The truth tests of Python decide: a flag that is
  false or absent and a locator that is a non-empty string give \<open>Completed\<close> with the
  locator as url; a flag that is false or absent and a locator that is absent or
  the empty string give \<open>Failed\<close>; a flag that is true gives \<open>Running\<close>.
\<close>

theorem get_report_status_classes:
  "(\<not> truthy_flag (running response) \<and>
      googleCloudStoragePathForLatestReport response = Some u \<and> u \<noteq> [] \<longrightarrow>
      get_report_status response = \<lparr>status = Completed, url = Some u\<rparr>) \<and>
   (\<not> truthy_flag (running response) \<and>
      (googleCloudStoragePathForLatestReport response = None \<or>
       googleCloudStoragePathForLatestReport response = Some []) \<longrightarrow>
      get_report_status response = \<lparr>status = Failed, url = None\<rparr>) \<and>
   (truthy_flag (running response) \<longrightarrow>
      get_report_status response = \<lparr>status = Running, url = None\<rparr>)"
  by (auto simp: get_report_status_def truthy_str_def)

text \<open>The theorem at one answer of each class.\<close>

theorem get_report_status_classes_witness:
  "get_report_status (file_ready ''q1'')
     = \<lparr>status = Completed, url = Some ''gs://reports/q1''\<rparr> \<and>
   get_report_status (ended_without_file ''q1'') = \<lparr>status = Failed, url = None\<rparr> \<and>
   get_report_status (still_running ''q1'') = \<lparr>status = Running, url = None\<rparr>"
  using
    get_report_status_classes [of "file_ready ''q1''" "''gs://reports/q1''"]
    get_report_status_classes [of "ended_without_file ''q1''" "[]"]
    get_report_status_classes [of "still_running ''q1''" "[]"]
  by (simp add: truthy_flag_def file_ready_def ended_without_file_def still_running_def)

text \<open>
  Claim C6 as it is written fails where the locator is present and empty: the flag
  is false, the locator is there, and the status is \<open>Failed\<close>, not \<open>Completed\<close>.
\<close>

theorem get_report_status_empty_locator:
  "running (ended_with_empty_locator ''q1'') = Some False \<and>
   googleCloudStoragePathForLatestReport (ended_with_empty_locator ''q1'') \<noteq> None \<and>
   get_report_status (ended_with_empty_locator ''q1'') = \<lparr>status = Failed, url = None\<rparr>"
  by (simp add: get_report_status_def truthy_flag_def truthy_str_def
      ended_with_empty_locator_def)

section \<open>The multi-job wait\<close>

lemma wait_while_incomplete:
  assumes "\<forall>t \<in> set ticks.
             \<not> list_all (\<lambda>s. status s = Completed) (get_reports_status (respond t) query_ids)"
  shows "wait_for_reports_to_complete query_ids ticks =
           (None, replicate (length ticks) (StatusRound query_ids))"
  using assms by (induction ticks) (simp_all add: Let_def)

text \<open>
  Claim C1 at a batch in which \<open>q1\<close> is observed \<open>Failed\<close> at every tick: however many
  ticks pass, \<open>wait_for_reports_to_complete\<close> has raised nothing and returned
  nothing; it has only issued one more round of queries per tick.
\<close>

theorem wait_for_reports_never_reports_failure:
  "status (get_report_status (q1_failed ''q1'')) = Failed \<and>
   wait_for_reports_to_complete [''q1'', ''q2''] (map q1_failed_tick [0..<n])
     = (None, replicate n (StatusRound [''q1'', ''q2'']))"
proof -
  have "\<forall>t \<in> set (map q1_failed_tick [0..<n]).
          \<not> list_all (\<lambda>s. status s = Completed) (get_reports_status (respond t) [''q1'', ''q2''])"
    by (simp add: q1_failed_tick_def q1_failed_def ended_without_file_def
        get_reports_status_def get_report_status_def truthy_flag_def truthy_str_def)
  from wait_while_incomplete [OF this] show ?thesis
    by (simp add: q1_failed_def ended_without_file_def get_report_status_def
        truthy_flag_def truthy_str_def)
qed

text \<open>
  Claim C5 at a job that is running at the first round and completed at the next.
  The multi-job wait issues the two rounds with no sleep between them; the loop of
  \<open>create_timezone_report\<close> raises \<open>NameError\<close> after the first round, where it would
  sleep, and never issues a second one.
\<close>

theorem dv360_polls_without_sleep:
  "wait_for_reports_to_complete [''q1'']
     [\<lparr>now = 0, respond = still_running\<rparr>, \<lparr>now = 0, respond = file_ready\<rparr>]
     = (Some (Inr [''gs://reports/q1'']), [StatusRound [''q1''], StatusRound [''q1'']]) \<and>
   create_timezone_report_poll ''q1''
     [\<lparr>now = 0, respond = still_running\<rparr>, \<lparr>now = 5, respond = file_ready\<rparr>]
     = (Some (Inl NameError), [StatusRound [''q1'']])"
  by (simp add: get_reports_status_def get_report_status_def truthy_flag_def truthy_str_def
      still_running_def file_ready_def)

section \<open>The deadline\<close>





section \<open>Reading the sample invoices\<close>

lemmas text_defs = splitlines_def LF_def line_boundaries_def

lemmas csv_defs = csv_reader_def parse_reset_def parse_process_char_def start_field_def
  parse_add_char_def parse_save_field_def is_newline_def continuation_byte_def field_limit_def

lemmas invoice_defs = finish_def initial_def process_row_def read_header_def read_gst_def
  gst_in_def gst_fields_def read_entries_def invoice_number_of_def SUPPORTED_PRODUCTS_def
  BOM_def lower_def char_lower_def greedy_to_close_def dict_update_def dict_of_def strip_def
  whitespace_def Let_def

lemma scenario_lines:
  "splitlines scenario_invoice =
     [''Invoice number,INV-1'', [], ''Product,Campaign Manager'', [],
      ''Item,Qty,Price'', ''Widget,2,10.00'', [], '',,GST (15%),,3.00'']"
  by (simp add: text_defs scenario_invoice_def)

lemma scenario_records:
  "csv_reader [''Invoice number,INV-1'', [], ''Product,Campaign Manager'', [],
      ''Item,Qty,Price'', ''Widget,2,10.00'', [], '',,GST (15%),,3.00''] =
     [Inr [''Invoice number'', ''INV-1''], Inr [],
      Inr [''Product'', ''Campaign Manager''], Inr [],
      Inr [''Item'', ''Qty'', ''Price''], Inr [''Widget'', ''2'', ''10.00''],
      Inr [], Inr [[], [], ''GST (15%)'', [], ''3.00'']]"
  by (simp add: csv_defs)

lemma scenario_rows:
  "read_rows initial
     [Inr [''Invoice number'', ''INV-1''], Inr [],
      Inr [''Product'', ''Campaign Manager''], Inr [],
      Inr [''Item'', ''Qty'', ''Price''], Inr [''Widget'', ''2'', ''10.00''],
      Inr [], Inr [[], [], ''GST (15%)'', [], ''3.00'']] = Inl IndexError"
  by (simp add: invoice_defs)

lemma without_gap_lines:
  "splitlines invoice_without_gap =
     [''Invoice number,INV-1'', [], ''Product,Campaign Manager'', [],
      ''Item,Qty,Price'', ''Widget,2,10.00'', '',,GST (15%),,3.00'']"
  by (simp add: text_defs invoice_without_gap_def)

lemma without_gap_records:
  "csv_reader [''Invoice number,INV-1'', [], ''Product,Campaign Manager'', [],
      ''Item,Qty,Price'', ''Widget,2,10.00'', '',,GST (15%),,3.00''] =
     [Inr [''Invoice number'', ''INV-1''], Inr [],
      Inr [''Product'', ''Campaign Manager''], Inr [],
      Inr [''Item'', ''Qty'', ''Price''], Inr [''Widget'', ''2'', ''10.00''],
      Inr [[], [], ''GST (15%)'', [], ''3.00'']]"
  by (simp add: csv_defs)

lemma without_gap_rows:
  "read_rows initial
     [Inr [''Invoice number'', ''INV-1''], Inr [],
      Inr [''Product'', ''Campaign Manager''], Inr [],
      Inr [''Item'', ''Qty'', ''Price''], Inr [''Widget'', ''2'', ''10.00''],
      Inr [[], [], ''GST (15%)'', [], ''3.00'']] =
     Inr \<lparr>state = READ_GST,
          invoice_header =
            [(''Invoice number'', ''INV-1''), (''Product'', ''Campaign Manager''),
             (''gst_pct'', ''15%''), (''gst_val'', ''3.00'')],
          invoice_entries = [[''Item'', ''Qty'', ''Price''], [''Widget'', ''2'', ''10.00'']]\<rparr>"
  by (simp add: invoice_defs)

lemma without_gap_finish:
  "finish \<lparr>state = READ_GST,
          invoice_header =
            [(''Invoice number'', ''INV-1''), (''Product'', ''Campaign Manager''),
             (''gst_pct'', ''15%''), (''gst_val'', ''3.00'')],
          invoice_entries = [[''Item'', ''Qty'', ''Price''], [''Widget'', ''2'', ''10.00'']]\<rparr> =
     Inr ([(''Invoice number'', ''INV-1''), (''Product'', ''Campaign Manager''),
           (''gst_pct'', ''15%''), (''gst_val'', ''3.00'')],
          [[(''Item'', ''Widget''), (''Qty'', ''2''), (''Price'', ''10.00''),
            (''Invoice number'', ''INV-1'')]])"
  by (simp add: invoice_defs)










lemma credit_memo_lines:
  "splitlines credit_memo =
     [''Credit memo number,CM-7'', ''Debit memo number,DM-9'', [],
      ''Product,Display and Video 360'', [], ''Invoice number,Qty'', ''X-1, 2 '', ''X-2,5'']"
  by (simp add: text_defs credit_memo_def)

lemma credit_memo_records:
  "csv_reader
     [''Credit memo number,CM-7'', ''Debit memo number,DM-9'', [],
      ''Product,Display and Video 360'', [], ''Invoice number,Qty'', ''X-1, 2 '', ''X-2,5''] =
     [Inr [''Credit memo number'', ''CM-7''], Inr [''Debit memo number'', ''DM-9''], Inr [],
      Inr [''Product'', ''Display and Video 360''], Inr [],
      Inr [''Invoice number'', ''Qty''], Inr [''X-1'', '' 2 ''], Inr [''X-2'', ''5'']]"
  by (simp add: csv_defs)

lemma credit_memo_rows:
  "read_rows initial
     [Inr [''Credit memo number'', ''CM-7''], Inr [''Debit memo number'', ''DM-9''], Inr [],
      Inr [''Product'', ''Display and Video 360''], Inr [],
      Inr [''Invoice number'', ''Qty''], Inr [''X-1'', '' 2 ''], Inr [''X-2'', ''5'']] =
     Inr \<lparr>state = READ_ENTRIES,
          invoice_header =
            [(''Credit memo number'', ''CM-7''), (''Debit memo number'', ''DM-9''),
             (''Product'', ''Display and Video 360'')],
          invoice_entries = [[''Invoice number'', ''Qty''], [''X-1'', '' 2 ''], [''X-2'', ''5'']]\<rparr>"
  by (simp add: invoice_defs)

lemma credit_memo_finish:
  "finish \<lparr>state = READ_ENTRIES,
          invoice_header =
            [(''Credit memo number'', ''CM-7''), (''Debit memo number'', ''DM-9''),
             (''Product'', ''Display and Video 360'')],
          invoice_entries = [[''Invoice number'', ''Qty''], [''X-1'', '' 2 ''], [''X-2'', ''5'']]\<rparr> =
     Inr ([(''Credit memo number'', ''CM-7''), (''Debit memo number'', ''DM-9''),
           (''Product'', ''Display and Video 360'')],
          [[(''Invoice number'', ''CM-7''), (''Qty'', ''2'')],
           [(''Invoice number'', ''CM-7''), (''Qty'', ''5'')]])"
  by (simp add: invoice_defs)

section \<open>The tax row\<close>

text \<open>
  Claim C7, as the code has it. On the row \<open>["", "", "GST (15%)", "", "42.00"]\<close>
  \<open>read_gst\<close> returns exactly the two entries \<open>gst_pct\<close> and \<open>gst_val\<close>; the percentage is
  the whole text between the parentheses, \<open>15%\<close> with its sign, and the value is
  \<open>42.00\<close>.
\<close>

theorem read_gst_sample_row:
  "read_gst ['''', '''', ''GST (15%)'', '''', ''42.00''] =
     Inr [(''gst_pct'', ''15%''), (''gst_val'', ''42.00'')]"
  by (simp add: invoice_defs)

text \<open>Claim C7 as it is written fails: the percentage recorded is not \<open>15\<close>.\<close>

theorem read_gst_pct_keeps_sign:
  "read_gst ['''', '''', ''GST (15%)'', '''', ''42.00''] \<noteq>
     Inr [(''gst_pct'', ''15''), (''gst_val'', ''42.00'')]"
  by (simp add: invoice_defs)

section \<open>The scenario\<close>

text \<open>
  Claim C2, as the code has it. With the tax row right after the last entry, the
  text parses to the header \<open>Invoice number: INV-1\<close>, \<open>Product: Campaign Manager\<close>,
  \<open>gst_pct: 15%\<close>, \<open>gst_val: 3.00\<close> and to the single entry \<open>Item: Widget\<close>, \<open>Qty: 2\<close>,
  \<open>Price: 10.00\<close>, \<open>Invoice number: INV-1\<close>.
\<close>

theorem read_invoice_without_gap:
  "read invoice_without_gap =
     Inr ([(''Invoice number'', ''INV-1''), (''Product'', ''Campaign Manager''),
           (''gst_pct'', ''15%''), (''gst_val'', ''3.00'')],
          [[(''Item'', ''Widget''), (''Qty'', ''2''), (''Price'', ''10.00''),
            (''Invoice number'', ''INV-1'')]])"
  unfolding read_def without_gap_lines without_gap_records without_gap_rows
  by (simp add: without_gap_finish)

text \<open>
  Claim C2 as it is written fails: on the text of the scenario, whose entries are
  followed by a blank line, \<open>read\<close> raises \<open>IndexError\<close> at that line.
\<close>

theorem read_scenario_invoice_fails:
  "read scenario_invoice = Inl IndexError"
  unfolding read_def scenario_lines scenario_records scenario_rows by simp

section \<open>The product row\<close>





section \<open>The invoice number\<close>

lemma map_of_dict_set: "map_of (dict_set d k v) k = Some v"
  by (induction d k v rule: dict_set.induct) auto

lemma read_entries_tagged:
  "read_entries invoice_number rows = Inr entries \<Longrightarrow>
     \<forall>e \<in> set entries. map_of e ''Invoice number'' = Some invoice_number"
  by (auto simp: read_entries_def dict_update_def map_of_dict_set Let_def split: if_splits)

text \<open>
  Claim C9. Let the loop of \<open>read\<close> end with the header of \<open>p\<close>. If the header holds
  none of \<open>Invoice number\<close>, \<open>Credit memo number\<close>, \<open>Debit memo number\<close>, \<open>read\<close> fails
  with the \<open>KeyError\<close> of the missing number. Otherwise the invoice number is the
  value under the first of these keys that the header holds, and whenever \<open>read\<close>
  returns, it returns that header and every entry carries that value under
  \<open>Invoice number\<close>.
\<close>

theorem read_invoice_number_resolution:
  assumes "read_rows initial (csv_reader (splitlines data)) = Inr p"
  shows "case first_present_key (invoice_header p) of
           None \<Rightarrow> read data = Inl (KeyError ''Invoice/Credit/Debit number not found'')
         | Some k \<Rightarrow>
             (\<exists>v. map_of (invoice_header p) k = Some v \<and>
                  invoice_number_of (invoice_header p) = Inr v \<and>
                  (\<forall>header entries. read data = Inr (header, entries) \<longrightarrow>
                     header = invoice_header p \<and>
                     (\<forall>e \<in> set entries. map_of e ''Invoice number'' = Some v)))"
proof -
  have rd: "read data = finish p" using assms by (simp add: read_def)
  show ?thesis
  proof (cases "invoice_number_of (invoice_header p)")
    case (Inl e)
    then have "first_present_key (invoice_header p) = None"
      "e = KeyError ''Invoice/Credit/Debit number not found''"
      by (auto simp: invoice_number_of_def first_present_key_def invoice_number_keys_def
          split: option.splits)
    with Inl rd show ?thesis by (simp add: finish_def)
  next
    case (Inr v)
    then obtain k where k: "first_present_key (invoice_header p) = Some k"
      "map_of (invoice_header p) k = Some v"
      by (auto simp: invoice_number_of_def first_present_key_def invoice_number_keys_def
          split: option.splits)
    have "\<forall>header entries. read data = Inr (header, entries) \<longrightarrow>
            header = invoice_header p \<and>
            (\<forall>e \<in> set entries. map_of e ''Invoice number'' = Some v)"
      using rd Inr read_entries_tagged [of v "invoice_entries p"]
      by (auto simp: finish_def split: sum.splits)
    with k Inr show ?thesis by simp
  qed
qed

text \<open>
  The theorem at a credit memo that also holds a debit memo number and has a column
  named \<open>Invoice number\<close>: the credit memo number wins and replaces the column.
\<close>

theorem read_invoice_number_resolution_witness:
  "read_rows initial (csv_reader (splitlines credit_memo)) =
     Inr \<lparr>state = READ_ENTRIES,
          invoice_header =
            [(''Credit memo number'', ''CM-7''), (''Debit memo number'', ''DM-9''),
             (''Product'', ''Display and Video 360'')],
          invoice_entries = [[''Invoice number'', ''Qty''], [''X-1'', '' 2 ''], [''X-2'', ''5'']]\<rparr> \<and>
   first_present_key
     [(''Credit memo number'', ''CM-7''), (''Debit memo number'', ''DM-9''),
      (''Product'', ''Display and Video 360'')] = Some ''Credit memo number'' \<and>
   invoice_number_of
     [(''Credit memo number'', ''CM-7''), (''Debit memo number'', ''DM-9''),
      (''Product'', ''Display and Video 360'')] = Inr ''CM-7'' \<and>
   read credit_memo =
     Inr ([(''Credit memo number'', ''CM-7''), (''Debit memo number'', ''DM-9''),
           (''Product'', ''Display and Video 360'')],
          [[(''Invoice number'', ''CM-7''), (''Qty'', ''2'')],
           [(''Invoice number'', ''CM-7''), (''Qty'', ''5'')]])"
proof -
  have rows: "read_rows initial (csv_reader (splitlines credit_memo)) =
     Inr \<lparr>state = READ_ENTRIES,
          invoice_header =
            [(''Credit memo number'', ''CM-7''), (''Debit memo number'', ''DM-9''),
             (''Product'', ''Display and Video 360'')],
          invoice_entries = [[''Invoice number'', ''Qty''], [''X-1'', '' 2 ''], [''X-2'', ''5'']]\<rparr>"
    unfolding credit_memo_lines credit_memo_records credit_memo_rows by simp
  have key: "first_present_key
     [(''Credit memo number'', ''CM-7''), (''Debit memo number'', ''DM-9''),
      (''Product'', ''Display and Video 360'')] = Some ''Credit memo number''"
    by (simp add: first_present_key_def invoice_number_keys_def)
  have result: "read credit_memo =
     Inr ([(''Credit memo number'', ''CM-7''), (''Debit memo number'', ''DM-9''),
           (''Product'', ''Display and Video 360'')],
          [[(''Invoice number'', ''CM-7''), (''Qty'', ''2'')],
           [(''Invoice number'', ''CM-7''), (''Qty'', ''5'')]])"
    unfolding read_def credit_memo_lines credit_memo_records credit_memo_rows
    by (simp add: credit_memo_finish)
  from read_invoice_number_resolution [OF rows] key
  have "invoice_number_of
     [(''Credit memo number'', ''CM-7''), (''Debit memo number'', ''DM-9''),
      (''Product'', ''Display and Video 360'')] = Inr ''CM-7''"
    by simp
  with rows key result show ?thesis by (intro conjI)
qed

end
